theory Spec2Isabelle
  imports Main "HOL-Library.Char_ord" "HOL-Library.List_Lexorder" "HOL-Library.Multiset"
begin

section \<open>Tag filter of the index page (inline script)\<close>

text \<open>
  The inline script of the index page works on two node lists, the \<open>li\<close> elements of
  \<open>#posts-list\<close> and the \<open>button\<close> elements of \<open>#tags-list\<close>, and on the variable
  \<open>last_tag_clicked\<close>. An element is modelled by the properties the script reads or
  writes: its markup, its rendered text, the rendered text of its \<open>span\<close> descendants
  (\<open>querySelectorAll('span')\<close> mapped to \<open>innerText\<close>) and its class list.
\<close>

record element =
  innerHTML :: string
  innerText :: string
  span_innerText :: "string list"
  classList :: "string list"

text \<open>
  The state of the script. \<open>tag_buttons\<close> is the script's node list \<open>tags\<close> (the
  name \<open>tags\<close> is the article field below); \<open>None\<close> is JavaScript's \<open>null\<close>.
\<close>

record script =
  posts :: "element list"
  tag_buttons :: "element list"
  last_tag_clicked :: "string option"

text \<open>\<open>classList.add\<close> and \<open>classList.remove\<close> on an ordered set of tokens.\<close>

definition classList_add :: "string \<Rightarrow> string list \<Rightarrow> string list" where
  "classList_add c cl = (if c \<in> set cl then cl else cl @ [c])"

definition classList_remove :: "string \<Rightarrow> string list \<Rightarrow> string list" where
  "classList_remove c cl = removeAll c cl"

definition updatePosts :: "string \<Rightarrow> element list \<Rightarrow> element list" where
  "updatePosts tag_clicked ps =
     map (\<lambda>post.
            if tag_clicked \<in> set (span_innerText post) \<or> tag_clicked = ''all''
            then post\<lparr>classList := classList_remove ''opacity-20'' (classList post)\<rparr>
            else post\<lparr>classList := classList_add ''opacity-20'' (classList post)\<rparr>) ps"

definition updateTags :: "string \<Rightarrow> element list \<Rightarrow> element list" where
  "updateTags tag_clicked ts =
     map (\<lambda>tag.
            if innerHTML tag = tag_clicked \<or> tag_clicked = ''all''
            then tag\<lparr>classList := classList_remove ''opacity-20'' (classList tag)\<rparr>
            else tag\<lparr>classList := classList_add ''opacity-20'' (classList tag)\<rparr>) ts"

text \<open>
  The click listener of the \<open>i\<close>-th button of \<open>tags\<close>. There is one listener per
  button, so an index outside the node list has no listener and changes nothing.
\<close>

definition click :: "nat \<Rightarrow> script \<Rightarrow> script" where
  "click i s =
     (if i < length (tag_buttons s) then
        (let tag = tag_buttons s ! i in
         if Some (innerHTML tag) = last_tag_clicked s then
           s\<lparr>posts := updatePosts ''all'' (posts s),
             tag_buttons := updateTags ''all'' (tag_buttons s),
             last_tag_clicked := None\<rparr>
         else
           s\<lparr>posts := updatePosts (innerText tag) (posts s),
             tag_buttons := updateTags (innerText tag) (tag_buttons s),
             last_tag_clicked := Some (innerHTML tag)\<rparr>)
      else s)"

text \<open>A sequence of clicks, first click first.\<close>

fun clicks :: "nat list \<Rightarrow> script \<Rightarrow> script" where
  "clicks [] s = s"
| "clicks (i # is) s = clicks is (click i s)"

text \<open>An element is dimmed when it carries the class \<open>opacity-20\<close>.\<close>

definition dimmed :: "element \<Rightarrow> bool" where
  "dimmed e \<longleftrightarrow> ''opacity-20'' \<in> set (classList e)"

text \<open>The unselected display: nothing dimmed, no tag remembered.\<close>

definition unselected :: "script \<Rightarrow> bool" where
  "unselected s \<longleftrightarrow>
     list_all (\<lambda>p. \<not> dimmed p) (posts s) \<and>
     list_all (\<lambda>t. \<not> dimmed t) (tag_buttons s) \<and>
     last_tag_clicked s = None"


text \<open>What the script never writes: everything of an element but the token \<open>opacity-20\<close>.\<close>

definition undim :: "element \<Rightarrow> element" where
  "undim e = e\<lparr>classList := classList_remove ''opacity-20'' (classList e)\<rparr>"

text \<open>
  The states the script can be in: no tag is remembered only while nothing is dimmed, and a
  remembered tag is the markup of one of the buttons.
\<close>

definition settled :: "script \<Rightarrow> bool" where
  "settled s \<longleftrightarrow>
     (case last_tag_clicked s of
        None \<Rightarrow> list_all (\<lambda>p. \<not> dimmed p) (posts s) \<and> list_all (\<lambda>t. \<not> dimmed t) (tag_buttons s)
      | Some markup \<Rightarrow> markup \<in> set (map innerHTML (tag_buttons s)))"

text \<open>Example pages for the tag filter.\<close>

definition li_js :: element where
  "li_js = \<lparr>innerHTML = ''<a>javascript Promises</a>'', innerText = ''javascript Promises'',
            span_innerText = [''javascript''], classList = [''border'']\<rparr>"

definition li_ts :: element where
  "li_ts = \<lparr>innerHTML = ''<a>typescript fp-ts</a>'', innerText = ''typescript fp-ts'',
            span_innerText = [''typescript''], classList = [''border'']\<rparr>"

definition li_all :: element where
  "li_all = \<lparr>innerHTML = ''<a>all Everything</a>'', innerText = ''all Everything'',
             span_innerText = [''all''], classList = [''border'']\<rparr>"

definition button :: "string \<Rightarrow> element" where
  "button label = \<lparr>innerHTML = label, innerText = label, span_innerText = [],
                    classList = [''inline-block'']\<rparr>"

definition blog_page :: script where
  "blog_page = \<lparr>posts = [li_ts, li_js],
                 tag_buttons = [button ''javascript'', button ''typescript''],
                 last_tag_clicked = None\<rparr>"

definition all_page :: script where
  "all_page = \<lparr>posts = [li_all, li_js],
                tag_buttons = [button ''all'', button ''javascript''],
                last_tag_clicked = None\<rparr>"




section \<open>Content collection schema\<close>

text \<open>
  The raw frontmatter of a content file is the value its YAML header parses to. The payload
  of a number plays no part in the schema; a YAML timestamp is always a valid date, held
  as its time value in milliseconds.
\<close>

datatype yaml =
    YNull
  | YBool bool
  | YNum int
  | YStr string
  | YDate int
  | YSeq "yaml list"
  | YMap "(string \<times> yaml) list"

text \<open>A JavaScript \<open>Date\<close>: a time value, or the invalid date whose time value is NaN.\<close>

datatype js_date = Date int | Invalid_Date

record article =
  title :: string
  description :: string
  pubDate :: js_date
  heroImage :: string
  tags :: "string list"
  visible :: bool

text \<open>
  The schema combinators the collection uses. A schema reads a property of the raw
  object, \<open>None\<close> when the key is absent (\<open>undefined\<close>), and yields the parsed value or
  \<open>None\<close> when it raises an issue.
\<close>

type_synonym 'a zod = "yaml option \<Rightarrow> 'a option"

definition z_string :: "string zod" where
  "z_string v = (case v of Some (YStr s) \<Rightarrow> Some s | _ \<Rightarrow> None)"

definition z_date :: "js_date zod" where
  "z_date v = (case v of Some (YDate t) \<Rightarrow> Some (Date t) | _ \<Rightarrow> None)"

definition z_boolean :: "bool zod" where
  "z_boolean v = (case v of Some (YBool b) \<Rightarrow> Some b | _ \<Rightarrow> None)"

definition z_array :: "'a zod \<Rightarrow> 'a list zod" where
  "z_array item v = (case v of Some (YSeq xs) \<Rightarrow> those (map (\<lambda>x. item (Some x)) xs) | _ \<Rightarrow> None)"

definition z_or :: "'a zod \<Rightarrow> 'b zod \<Rightarrow> ('a + 'b) zod" where
  "z_or a b v = (case a v of Some x \<Rightarrow> Some (Inl x) | None \<Rightarrow> map_option Inr (b v))"

definition z_transform :: "'a zod \<Rightarrow> ('a \<Rightarrow> 'b) \<Rightarrow> 'b zod" where
  "z_transform schema f v = map_option f (schema v)"

text \<open>
  \<open>new Date(val)\<close> for a string or a \<open>Date\<close>. How a string is read as a date is the
  engine's \<open>Date.parse\<close>, a parameter here; it yields the invalid date for a string it
  cannot read.
\<close>

definition new_Date :: "(string \<Rightarrow> js_date) \<Rightarrow> string + js_date \<Rightarrow> js_date" where
  "new_Date date_parse val = (case val of Inl s \<Rightarrow> date_parse s | Inr d \<Rightarrow> d)"

text \<open>A failed parse carries the keys that raised an issue.\<close>

datatype zod_error = ZodError "string list"

definition issue :: "string \<Rightarrow> 'a option \<Rightarrow> string list" where
  "issue path r = (case r of None \<Rightarrow> [path] | Some _ \<Rightarrow> [])"

text \<open>The schema of the \<open>blog\<close> collection; keys the schema does not name are dropped.\<close>

definition blog :: "(string \<Rightarrow> js_date) \<Rightarrow> yaml \<Rightarrow> zod_error + article" where
  "blog date_parse raw =
     (case raw of
        YMap kvs \<Rightarrow>
          (let prop = map_of kvs;
               t = z_string (prop ''title'');
               d = z_string (prop ''description'');
               p = z_transform (z_or z_string z_date) (new_Date date_parse) (prop ''pubDate'');
               h = z_string (prop ''heroImage'');
               ts = z_array z_string (prop ''tags'');
               v = z_boolean (prop ''visible'')
           in case (t, d, p, h, ts, v) of
                (Some t', Some d', Some p', Some h', Some ts', Some v') \<Rightarrow>
                  Inr \<lparr>title = t', description = d', pubDate = p', heroImage = h',
                       tags = ts', visible = v'\<rparr>
              | _ \<Rightarrow>
                  Inl (ZodError (issue ''title'' t @ issue ''description'' d @ issue ''pubDate'' p @
                                 issue ''heroImage'' h @ issue ''tags'' ts @ issue ''visible'' v)))
      | _ \<Rightarrow> Inl (ZodError []))"

text \<open>
  The schema as the specification words it: each field of the raw record has the type
  the article asks for.
\<close>

definition is_text :: "yaml option \<Rightarrow> bool" where
  "is_text v = (case v of Some (YStr _) \<Rightarrow> True | _ \<Rightarrow> False)"

definition is_date_or_text :: "yaml option \<Rightarrow> bool" where
  "is_date_or_text v = (case v of Some (YStr _) \<Rightarrow> True | Some (YDate _) \<Rightarrow> True | _ \<Rightarrow> False)"

definition is_text_sequence :: "yaml option \<Rightarrow> bool" where
  "is_text_sequence v = (case v of Some (YSeq xs) \<Rightarrow> list_all (\<lambda>x. is_text (Some x)) xs | _ \<Rightarrow> False)"

definition is_boolean :: "yaml option \<Rightarrow> bool" where
  "is_boolean v = (case v of Some (YBool _) \<Rightarrow> True | _ \<Rightarrow> False)"

definition frontmatter_ok :: "yaml \<Rightarrow> bool" where
  "frontmatter_ok raw =
     (case raw of
        YMap kvs \<Rightarrow>
          is_text (map_of kvs ''title'') \<and> is_text (map_of kvs ''description'') \<and>
          is_date_or_text (map_of kvs ''pubDate'') \<and> is_text (map_of kvs ''heroImage'') \<and>
          is_text_sequence (map_of kvs ''tags'') \<and> is_boolean (map_of kvs ''visible'')
      | _ \<Rightarrow> False)"

text \<open>Example frontmatter: a well-typed record, and the same record without its title.\<close>

definition fm_untitled :: "(string \<times> yaml) list" where
  "fm_untitled =
     [(''description'', YStr ''A practical introduction''), (''pubDate'', YDate 1694131200000),
      (''heroImage'', YStr ''/images/fp-ts.jpg''), (''tags'', YSeq [YStr ''typescript'']),
      (''visible'', YBool True)]"

definition fm_good :: "(string \<times> yaml) list" where
  "fm_good = (''title'', YStr ''Introduction to fp-ts'') # fm_untitled"

section \<open>Index page, build time\<close>

text \<open>An entry of the collection: its slug and its validated data.\<close>

record entry =
  slug :: string
  data :: article

text \<open>\<open>valueOf\<close> of a date; \<open>None\<close> is NaN.\<close>

definition valueOf :: "js_date \<Rightarrow> int option" where
  "valueOf d = (case d of Date t \<Rightarrow> Some t | Invalid_Date \<Rightarrow> None)"

text \<open>The comparator \<open>(a, b) => a.data.pubDate.valueOf() - b.data.pubDate.valueOf()\<close>.\<close>

definition by_pubDate :: "entry \<Rightarrow> entry \<Rightarrow> int option" where
  "by_pubDate a b =
     (case (valueOf (pubDate (data a)), valueOf (pubDate (data b))) of
        (Some x, Some y) \<Rightarrow> Some (x - y)
      | _ \<Rightarrow> None)"

text \<open>
  \<open>Array.prototype.sort\<close> with a comparator, as a stable insertion sort: an element moves
  behind another only when the comparator is positive (NaN counts as zero). With a
  consistent comparator every stable sort gives this list. With an invalid date the
  comparator is NaN and the engine's order is implementation-defined: this list is then a
  permutation of the collection that need not be the engine's. Only the order is
  concerned, and no statement below depends on it.
\<close>

fun insert_by :: "('a \<Rightarrow> 'a \<Rightarrow> int option) \<Rightarrow> 'a \<Rightarrow> 'a list \<Rightarrow> 'a list" where
  "insert_by cmp x [] = [x]"
| "insert_by cmp x (y # ys) =
     (if (case cmp x y of Some c \<Rightarrow> 0 < c | None \<Rightarrow> False)
      then y # insert_by cmp x ys else x # y # ys)"

definition js_sort :: "('a \<Rightarrow> 'a \<Rightarrow> int option) \<Rightarrow> 'a list \<Rightarrow> 'a list" where
  "js_sort cmp xs = foldr (insert_by cmp) xs []"

text \<open>
  The posts of the index page: the collection sorted by date, without the invisible
  entries unless \<open>import.meta.env.NODE_ENV\<close> (\<open>None\<close> when undefined) is \<open>development\<close>.
\<close>

definition index_posts :: "string option \<Rightarrow> entry list \<Rightarrow> entry list" where
  "index_posts NODE_ENV collection =
     (let sorted = js_sort by_pubDate collection;
          is_development = (NODE_ENV = Some ''development'')
      in if \<not> is_development then filter (\<lambda>post. visible (data post) = True) sorted
         else sorted)"

text \<open>The labels of the buttons of \<open>#tags-list\<close>, in the order rendered.\<close>

definition tags_list :: "string option \<Rightarrow> entry list \<Rightarrow> string list" where
  "tags_list NODE_ENV collection =
     sort (foldl (\<lambda>acc post.
                    foldl (\<lambda>acc tag. if tag \<notin> set acc then acc @ [tag] else acc)
                          acc (tags (data post)))
                 [] (index_posts NODE_ENV collection))"

text \<open>The entries of the items of \<open>#posts-list\<close>, in the order rendered.\<close>

definition posts_list :: "string option \<Rightarrow> entry list \<Rightarrow> entry list" where
  "posts_list NODE_ENV collection = rev (index_posts NODE_ENV collection)"

text \<open>Example entries: a published article and a draft.\<close>

definition published :: entry where
  "published = \<lparr>slug = ''fp-ts'',
                 data = \<lparr>title = ''Introduction to fp-ts'', description = ''A practical introduction'',
                         pubDate = Date 1694131200000, heroImage = ''/images/fp-ts.jpg'',
                         tags = [''typescript''], visible = True\<rparr>\<rparr>"

definition draft :: entry where
  "draft = \<lparr>slug = ''rust-notes'',
             data = \<lparr>title = ''Rust notes'', description = ''Work in progress'',
                     pubDate = Date 1700000000000, heroImage = ''/images/rust.jpg'',
                     tags = [''rust'', ''typescript''], visible = False\<rparr>\<rparr>"

section \<open>Article page: table of contents and reading progress (inline script)\<close>

text \<open>An element of the article, by the properties the script reads.\<close>

record html_element =
  nodeName :: string
  el_id :: string
  el_innerText :: string

text \<open>
  An entry the generator creates: the \<open>li\<close> with its padding and its one child, the link
  \<open>a\<close> with its target, text, margin and class.
\<close>

record toc_li =
  a_href :: string
  a_innerText :: string
  a_marginLeft :: string
  a_className :: string
  li_paddingBottom :: string

text \<open>
  The document, by what the script looks up: the elements of class \<open>dw-blog-article\<close>,
  each as the list of its descendants in document order; the element children of
  \<open>#table-of-contents\<close>; the \<open>style.width\<close> of \<open>#post-progress-bar\<close>. \<open>None\<close> is an
  element that \<open>getElementById\<close> does not find.
\<close>

record document =
  articles :: "html_element list list"
  table_of_contents :: "toc_li list option"
  post_progress_bar :: "string option"

datatype js_error = TypeError

definition margins :: "string \<Rightarrow> string option" where
  "margins name = (if name = ''H2'' then Some ''0rem'' else if name = ''H3'' then Some ''1rem'' else None)"

text \<open>\<open>querySelectorAll('h2, h3')\<close>: the matching descendants in document order.\<close>

definition querySelectorAll_h2_h3 :: "html_element list \<Rightarrow> html_element list" where
  "querySelectorAll_h2_h3 descendants = filter (\<lambda>k. nodeName k = ''H2'' \<or> nodeName k = ''H3'') descendants"

text \<open>The body of the \<open>forEach\<close>; a margin of \<open>undefined\<close> leaves the style empty.\<close>

definition toc_entry :: "html_element \<Rightarrow> toc_li" where
  "toc_entry k =
     \<lparr>a_href = ''#'' @ el_id k,
      a_innerText = el_innerText k,
      a_marginLeft = (case margins (nodeName k) of Some m \<Rightarrow> m | None \<Rightarrow> []),
      a_className = ''hover:underline p-2'',
      li_paddingBottom = ''0.5rem''\<rparr>"

text \<open>Reading a property of \<open>null\<close> raises \<open>TypeError\<close>.\<close>

definition generateTableOfContents :: "document \<Rightarrow> js_error + document" where
  "generateTableOfContents doc =
     (case articles doc of
        [] \<Rightarrow> Inr doc
      | article # _ \<Rightarrow>
          (case table_of_contents doc of
             None \<Rightarrow> Inl TypeError
           | Some children \<Rightarrow>
               if length children \<noteq> 0 then Inr doc
               else Inr (doc\<lparr>table_of_contents :=
                           Some (foldl (\<lambda>toc k. toc @ [toc_entry k]) children
                                       (querySelectorAll_h2_h3 article))\<rparr>)))"

text \<open>
  The scroll listener. \<open>width\<close> is the value of
  \<open>(window.scrollY / (document.body.scrollHeight - window.innerHeight)) * 100 + '%'\<close>,
  whose floating-point arithmetic is not modelled; the element is looked up first.
  \<open>style_width\<close> is the browser's setter of \<open>style.width\<close>: from the value the style has
  and the string assigned it gives the value the style has afterwards (it ignores a string
  that is no width, such as \<open>NaN%\<close>, and serialises the others anew).
\<close>

definition scroll_listener ::
  "(string \<Rightarrow> string \<Rightarrow> string) \<Rightarrow> string \<Rightarrow> document \<Rightarrow> js_error + document" where
  "scroll_listener style_width width doc =
     (case post_progress_bar doc of
        None \<Rightarrow> Inl TypeError
      | Some old \<Rightarrow> Inr (doc\<lparr>post_progress_bar := Some (style_width old width)\<rparr>))"

text \<open>
  The page once the inline script has run: the document, and whether the scroll listener
  was registered.
\<close>

record page =
  dom :: document
  scroll_registered :: bool

text \<open>
  The script from top to bottom: the call of the generator, then the registration of the
  scroll listener. A raise in the call ends the script, so the listener is not registered.
  The second component is the error left uncaught, if any.
\<close>

definition inline_script :: "document \<Rightarrow> page \<times> js_error option" where
  "inline_script doc =
     (case generateTableOfContents doc of
        Inl e \<Rightarrow> (\<lparr>dom = doc, scroll_registered = False\<rparr>, Some e)
      | Inr doc' \<Rightarrow> (\<lparr>dom = doc', scroll_registered = True\<rparr>, None))"

text \<open>A scroll event on the page: it runs the listener when one is registered.\<close>

definition scroll_event ::
  "(string \<Rightarrow> string \<Rightarrow> string) \<Rightarrow> string \<Rightarrow> page \<Rightarrow> page \<times> js_error option" where
  "scroll_event style_width width p =
     (if scroll_registered p then
        (case scroll_listener style_width width (dom p) of
           Inl e \<Rightarrow> (p, Some e)
         | Inr doc' \<Rightarrow> (p\<lparr>dom := doc'\<rparr>, None))
      else (p, None))"

text \<open>
  The article page as its template renders it: one article, an empty table of contents,
  the progress bar of the layout.
\<close>

definition article_page :: "html_element list \<Rightarrow> document" where
  "article_page body = \<lparr>articles = [body], table_of_contents = Some [], post_progress_bar = Some []\<rparr>"

text \<open>Example documents.\<close>

definition h :: "string \<Rightarrow> string \<Rightarrow> html_element" where
  "h name anchor = \<lparr>nodeName = name, el_id = anchor, el_innerText = anchor\<rparr>"

definition sample_body :: "html_element list" where
  "sample_body = [h ''H1'' ''title'', h ''H2'' ''callbacks'', h ''P'' ''p1'', h ''H3'' ''the-problem'',
                  h ''H2'' ''promises'']"

definition no_article :: document where
  "no_article = \<lparr>articles = [], table_of_contents = None, post_progress_bar = None\<rparr>"

definition no_toc :: document where
  "no_toc = \<lparr>articles = [sample_body], table_of_contents = None, post_progress_bar = Some []\<rparr>"

definition no_bar :: document where
  "no_bar = \<lparr>articles = [sample_body], table_of_contents = Some [], post_progress_bar = None\<rparr>"

text \<open>
  For the examples, a setter that keeps the assigned string, as a browser does with the
  width \<open>50%\<close>.
\<close>

definition store_assigned :: "string \<Rightarrow> string \<Rightarrow> string" where
  "store_assigned old assigned = assigned"

definition sample_toc :: "toc_li list" where
  "sample_toc = [toc_entry (h ''H2'' ''callbacks''), toc_entry (h ''H3'' ''the-problem''),
                 toc_entry (h ''H2'' ''promises'')]"

section \<open>Properties of the tag filter\<close>

lemma not_dimmed_remove [simp]:
  "\<not> dimmed (e\<lparr>classList := classList_remove ''opacity-20'' (classList e)\<rparr>)"
  by (simp add: dimmed_def classList_remove_def)

lemma dimmed_add [simp]:
  "dimmed (e\<lparr>classList := classList_add ''opacity-20'' (classList e)\<rparr>)"
  by (simp add: dimmed_def classList_add_def)

lemma updatePosts_all: "list_all (\<lambda>p. \<not> dimmed p) (updatePosts ''all'' ps)"
  by (simp add: updatePosts_def list_all_iff)

lemma updateTags_all: "list_all (\<lambda>t. \<not> dimmed t) (updateTags ''all'' ts)"
  by (simp add: updateTags_def list_all_iff)

lemma length_updatePosts [simp]: "length (updatePosts c ps) = length ps"
  by (simp add: updatePosts_def)

lemma length_updateTags [simp]: "length (updateTags c ts) = length ts"
  by (simp add: updateTags_def)

lemma innerHTML_updateTags [simp]:
  "i < length ts \<Longrightarrow> innerHTML (updateTags c ts ! i) = innerHTML (ts ! i)"
  by (simp add: updateTags_def)

lemma innerText_updateTags [simp]:
  "i < length ts \<Longrightarrow> innerText (updateTags c ts ! i) = innerText (ts ! i)"
  by (simp add: updateTags_def)

lemma innerHTML_updateTags_map [simp]: "map innerHTML (updateTags c ts) = map innerHTML ts"
  by (simp add: updateTags_def comp_def)









lemma undim_remove [simp]:
  "undim (e\<lparr>classList := classList_remove ''opacity-20'' (classList e)\<rparr>) = undim e"
  by (simp add: undim_def classList_remove_def)

lemma undim_add [simp]:
  "undim (e\<lparr>classList := classList_add ''opacity-20'' (classList e)\<rparr>) = undim e"
  by (simp add: undim_def classList_remove_def classList_add_def)

lemma undim_updatePosts [simp]: "map undim (updatePosts c ps) = map undim ps"
  by (simp add: updatePosts_def)

lemma undim_updateTags [simp]: "map undim (updateTags c ts) = map undim ts"
  by (simp add: updateTags_def)

lemma updatePosts_all_undim: "updatePosts ''all'' ps = map undim ps"
  by (simp add: updatePosts_def undim_def)

lemma updateTags_all_undim: "updateTags ''all'' ts = map undim ts"
  by (simp add: updateTags_def undim_def)

lemma undim_id: "\<not> dimmed e \<Longrightarrow> undim e = e"
  by (simp add: undim_def dimmed_def classList_remove_def)

lemma map_undim_id: "list_all (\<lambda>e. \<not> dimmed e) es \<Longrightarrow> map undim es = es"
  by (induction es) (simp_all add: undim_id)

lemma undim_click:
  "map undim (posts (click i s)) = map undim (posts s) \<and>
   map undim (tag_buttons (click i s)) = map undim (tag_buttons s)"
  by (simp add: click_def Let_def)

lemma undim_clicks:
  "map undim (posts (clicks is s)) = map undim (posts s) \<and>
   map undim (tag_buttons (clicks is s)) = map undim (tag_buttons s)"
  by (induction "is" arbitrary: s) (simp_all add: undim_click)

lemma settled_click: "settled s \<Longrightarrow> settled (click i s)"
  by (auto simp add: settled_def click_def Let_def updatePosts_all updateTags_all)

lemma settled_clicks: "settled s \<Longrightarrow> settled (clicks is s)"
  by (induction "is" arbitrary: s) (simp_all add: settled_click)

lemma settled_reset:
  assumes "settled s"
  shows "\<exists>js. clicks js s = \<lparr>posts = map undim (posts s), tag_buttons = map undim (tag_buttons s),
                              last_tag_clicked = None\<rparr>"
proof (cases "last_tag_clicked s")
  case None
  then have "s = \<lparr>posts = map undim (posts s), tag_buttons = map undim (tag_buttons s),
                   last_tag_clicked = None\<rparr>"
    using assms by (simp add: settled_def map_undim_id)
  then have "clicks [] s = \<lparr>posts = map undim (posts s), tag_buttons = map undim (tag_buttons s),
                   last_tag_clicked = None\<rparr>" by simp
  then show ?thesis by blast
next
  case (Some markup)
  then obtain j where j: "j < length (tag_buttons s)" "innerHTML (tag_buttons s ! j) = markup"
    using assms by (auto simp add: settled_def in_set_conv_nth)
  then have "clicks [j] s = \<lparr>posts = map undim (posts s), tag_buttons = map undim (tag_buttons s),
                   last_tag_clicked = None\<rparr>"
    using Some by (simp add: click_def updatePosts_all_undim updateTags_all_undim)
  then show ?thesis by blast
qed

text \<open>
  C9. Whatever the sequence of clicks, every post and every button is what it was but for
  the class \<open>opacity-20\<close>: markup, text and the labels of the posts are not written; the
  only other thing written is \<open>last_tag_clicked\<close>. From an unselected page, further clicks
  bring every state reached back to that page.
\<close>

theorem filter_is_presentational:
  "map undim (posts (clicks is s)) = map undim (posts s) \<and>
   map undim (tag_buttons (clicks is s)) = map undim (tag_buttons s) \<and>
   (unselected s \<longrightarrow> (\<exists>js. clicks js (clicks is s) = s))"
proof (intro conjI impI)
  show "map undim (posts (clicks is s)) = map undim (posts s)"
    by (simp add: undim_clicks)
  show "map undim (tag_buttons (clicks is s)) = map undim (tag_buttons s)"
    by (simp add: undim_clicks)
  assume u: "unselected s"
  then have "settled s" by (simp add: unselected_def settled_def)
  then have "settled (clicks is s)" by (rule settled_clicks)
  then obtain js where "clicks js (clicks is s) =
      \<lparr>posts = map undim (posts (clicks is s)), tag_buttons = map undim (tag_buttons (clicks is s)),
       last_tag_clicked = None\<rparr>"
    using settled_reset by blast
  moreover have "\<lparr>posts = map undim (posts (clicks is s)),
       tag_buttons = map undim (tag_buttons (clicks is s)), last_tag_clicked = None\<rparr> = s"
    using u by (simp add: undim_clicks unselected_def map_undim_id)
  ultimately show "\<exists>js. clicks js (clicks is s) = s" by auto
qed

theorem filter_is_presentational_witness:
  "unselected blog_page \<and>
   last_tag_clicked (clicks [1, 0] blog_page) = Some ''javascript'' \<and>
   map undim (posts (clicks [1, 0] blog_page)) = map undim (posts blog_page) \<and>
   (\<exists>js. clicks js (clicks [1, 0] blog_page) = blog_page)"
proof -
  have u: "unselected blog_page"
    by (simp add: unselected_def blog_page_def button_def li_js_def li_ts_def dimmed_def)
  have n: "last_tag_clicked (clicks [1, 0] blog_page) = Some ''javascript''"
    by (simp add: click_def Let_def updateTags_def blog_page_def button_def)
  show ?thesis
    using u n filter_is_presentational [of "[1, 0]" blog_page] by simp
qed

text \<open>
  C10. With the argument \<open>all\<close>, \<open>updatePosts\<close> returns every post, in order, with the
  class \<open>opacity-20\<close> removed and nothing else changed, and \<open>updateTags\<close> does the same to
  every button, whatever their labels; so neither leaves an element dimmed. A click on a
  button whose label is \<open>all\<close> therefore removes the dimming from every post and every
  button, whether or not a post carries that label.
\<close>

theorem all_is_reset_sentinel:
  "updatePosts ''all'' ps = map undim ps \<and>
   updateTags ''all'' ts = map undim ts \<and>
   undim e = e\<lparr>classList := removeAll ''opacity-20'' (classList e)\<rparr> \<and>
   \<not> dimmed (undim e) \<and>
   list_all (\<lambda>p. \<not> dimmed p) (updatePosts ''all'' ps) \<and>
   list_all (\<lambda>t. \<not> dimmed t) (updateTags ''all'' ts) \<and>
   (i < length (tag_buttons s) \<longrightarrow> innerText (tag_buttons s ! i) = ''all'' \<longrightarrow>
      posts (click i s) = map undim (posts s) \<and>
      tag_buttons (click i s) = map undim (tag_buttons s) \<and>
      list_all (\<lambda>p. \<not> dimmed p) (posts (click i s)) \<and>
      list_all (\<lambda>t. \<not> dimmed t) (tag_buttons (click i s)))"
proof (intro conjI impI)
  show "updatePosts ''all'' ps = map undim ps"
    by (rule updatePosts_all_undim)
  show "updateTags ''all'' ts = map undim ts"
    by (rule updateTags_all_undim)
  show "undim e = e\<lparr>classList := removeAll ''opacity-20'' (classList e)\<rparr>"
    by (simp add: undim_def classList_remove_def)
  show "\<not> dimmed (undim e)"
    by (simp add: undim_def)
  show "list_all (\<lambda>p. \<not> dimmed p) (updatePosts ''all'' ps)"
    by (rule updatePosts_all)
  show "list_all (\<lambda>t. \<not> dimmed t) (updateTags ''all'' ts)"
    by (rule updateTags_all)
next
  assume i: "i < length (tag_buttons s)" and lab: "innerText (tag_buttons s ! i) = ''all''"
  show p: "posts (click i s) = map undim (posts s)"
    using i lab by (simp add: click_def Let_def updatePosts_all_undim)
  show t: "tag_buttons (click i s) = map undim (tag_buttons s)"
    using i lab by (simp add: click_def Let_def updateTags_all_undim)
  show "list_all (\<lambda>p. \<not> dimmed p) (posts (click i s))"
    unfolding p by (simp add: list_all_iff undim_def)
  show "list_all (\<lambda>t. \<not> dimmed t) (tag_buttons (click i s))"
    unfolding t by (simp add: list_all_iff undim_def)
qed

theorem all_is_reset_sentinel_witness:
  "innerText (tag_buttons (click 1 all_page) ! 0) = ''all'' \<and>
   ''all'' \<notin> set (span_innerText (posts all_page ! 1)) \<and>
   dimmed (posts (click 1 all_page) ! 0) \<and> dimmed (tag_buttons (click 1 all_page) ! 0) \<and>
   posts (click 0 (click 1 all_page)) = posts all_page \<and>
   tag_buttons (click 0 (click 1 all_page)) = tag_buttons all_page \<and>
   list_all (\<lambda>p. \<not> dimmed p) (posts (click 0 (click 1 all_page))) \<and>
   list_all (\<lambda>t. \<not> dimmed t) (tag_buttons (click 0 (click 1 all_page)))"
proof -
  have s1: "click 1 all_page =
      \<lparr>posts = [li_all\<lparr>classList := [''border'', ''opacity-20'']\<rparr>, li_js],
       tag_buttons = [(button ''all'')\<lparr>classList := [''inline-block'', ''opacity-20'']\<rparr>,
                      button ''javascript''],
       last_tag_clicked = Some ''javascript''\<rparr>"
    by (simp add: click_def Let_def updatePosts_def updateTags_def all_page_def button_def
        li_all_def li_js_def classList_add_def classList_remove_def)
  show ?thesis
    using all_is_reset_sentinel [of "[]" "[]" li_js 0 "click 1 all_page"]
    unfolding s1
    by (simp add: all_page_def button_def li_all_def li_js_def undim_def dimmed_def
        classList_remove_def)
qed

section \<open>Properties of the index page\<close>

lemma mset_insert_by: "mset (insert_by cmp x xs) = add_mset x (mset xs)"
  by (induction xs) auto

lemma mset_js_sort: "mset (js_sort cmp xs) = mset xs"
  by (induction xs) (simp_all add: js_sort_def mset_insert_by)

lemma set_js_sort: "set (js_sort cmp xs) = set xs"
  using mset_js_sort [of cmp xs] by (metis set_mset_mset)

lemma set_collect_inner:
  "set (foldl (\<lambda>acc tag. if tag \<notin> set acc then acc @ [tag] else acc) acc ts) = set acc \<union> set ts"
  by (induction ts arbitrary: acc) auto

lemma distinct_collect_inner:
  "distinct acc \<Longrightarrow> distinct (foldl (\<lambda>acc tag. if tag \<notin> set acc then acc @ [tag] else acc) acc ts)"
  by (induction ts arbitrary: acc) auto

lemma set_collect_outer:
  "set (foldl (\<lambda>acc post. foldl (\<lambda>acc tag. if tag \<notin> set acc then acc @ [tag] else acc)
                                  acc (tags (data post))) acc ps)
   = set acc \<union> (\<Union>post\<in>set ps. set (tags (data post)))"
  by (induction ps arbitrary: acc) (auto simp add: set_collect_inner)

lemma distinct_collect_outer:
  "distinct acc \<Longrightarrow>
   distinct (foldl (\<lambda>acc post. foldl (\<lambda>acc tag. if tag \<notin> set acc then acc @ [tag] else acc)
                                  acc (tags (data post))) acc ps)"
  by (induction ps arbitrary: acc) (auto simp add: distinct_collect_inner)

text \<open>
  C4. Unless \<open>NODE_ENV\<close> is \<open>development\<close>, the items of the list are exactly the visible
  entries of the collection, each as often as it occurs there; when it is, they are
  exactly the entries of the collection.
\<close>

theorem visibility_filter:
  "(NODE_ENV \<noteq> Some ''development'' \<longrightarrow>
      mset (posts_list NODE_ENV collection) = filter_mset (\<lambda>A. visible (data A)) (mset collection)) \<and>
   (NODE_ENV = Some ''development'' \<longrightarrow>
      mset (posts_list NODE_ENV collection) = mset collection)"
  by (simp add: posts_list_def index_posts_def Let_def mset_js_sort)

theorem visibility_filter_witness:
  "mset (posts_list None [draft, published]) = {#published#} \<and>
   mset (posts_list (Some ''development'') [draft, published]) = {#draft, published#}"
  using visibility_filter [of None "[draft, published]"]
    visibility_filter [of "Some ''development''" "[draft, published]"]
  by (simp add: draft_def published_def)

text \<open>
  C6, as amended. The labels of the tag buttons are exactly the tags of the entries that
  pass the visibility filter (all entries when \<open>NODE_ENV\<close> is \<open>development\<close>), and no
  label occurs twice.
\<close>

theorem tag_buttons_union_of_listed:
  "set (tags_list NODE_ENV collection) =
     (\<Union>post \<in> {post \<in> set collection. NODE_ENV = Some ''development'' \<or> visible (data post)}.
        set (tags (data post))) \<and>
   distinct (tags_list NODE_ENV collection)"
  by (auto simp add: tags_list_def set_collect_outer distinct_collect_outer index_posts_def Let_def
      set_js_sort)

theorem tag_buttons_union_of_listed_witness:
  "set (tags_list None [draft, published]) = {''typescript''} \<and>
   distinct (tags_list None [draft, published])"
  using tag_buttons_union_of_listed [of None "[draft, published]"]
  by (auto simp add: draft_def published_def)

text \<open>
  C6 as stated fails for a collection whose only entry is a draft: outside development
  mode no button is rendered, though the entry has tags.
\<close>

theorem hidden_tags_counterexample:
  "tags_list None [draft] = [] \<and> tags (data draft) = [''rust'', ''typescript'']"
  by (simp add: tags_list_def index_posts_def js_sort_def draft_def)

section \<open>Properties of the schema\<close>

lemma z_string_Some: "(\<exists>s. z_string v = Some s) \<longleftrightarrow> is_text v"
  by (auto simp add: z_string_def is_text_def split: option.splits yaml.splits)

lemma z_boolean_Some: "(\<exists>b. z_boolean v = Some b) \<longleftrightarrow> is_boolean v"
  by (auto simp add: z_boolean_def is_boolean_def split: option.splits yaml.splits)

lemma pubDate_Some:
  "(\<exists>d. z_transform (z_or z_string z_date) (new_Date date_parse) v = Some d) \<longleftrightarrow> is_date_or_text v"
  by (auto simp add: z_transform_def z_or_def z_string_def z_date_def is_date_or_text_def
      split: option.splits yaml.splits)

lemma those_Some: "(\<exists>ys. those (map f xs) = Some ys) \<longleftrightarrow> list_all (\<lambda>x. \<exists>y. f x = Some y) xs"
  by (induction xs) (auto split: option.splits)

lemma z_array_string_Some: "(\<exists>ts. z_array z_string v = Some ts) \<longleftrightarrow> is_text_sequence v"
proof (cases v)
  case None
  then show ?thesis by (simp add: z_array_def is_text_sequence_def)
next
  case (Some y)
  then show ?thesis
    by (cases y) (simp_all add: z_array_def is_text_sequence_def those_Some z_string_Some)
qed

lemma blog_Inr_iff:
  "(\<exists>a. blog date_parse (YMap kvs) = Inr a) \<longleftrightarrow>
   (\<exists>t. z_string (map_of kvs ''title'') = Some t) \<and>
   (\<exists>d. z_string (map_of kvs ''description'') = Some d) \<and>
   (\<exists>p. z_transform (z_or z_string z_date) (new_Date date_parse) (map_of kvs ''pubDate'') = Some p) \<and>
   (\<exists>h. z_string (map_of kvs ''heroImage'') = Some h) \<and>
   (\<exists>ts. z_array z_string (map_of kvs ''tags'') = Some ts) \<and>
   (\<exists>v. z_boolean (map_of kvs ''visible'') = Some v)"
  by (auto simp add: blog_def Let_def split: option.splits)

text \<open>
  C5. The schema yields an article exactly when the raw record is an object whose title,
  description and hero image are strings, whose publication date is a string or a date,
  whose tags are a sequence of strings and whose visibility is a boolean; otherwise it
  yields an error and no article. A record without a title yields an error that names
  the title. On success the publication date is the date read from the string, or the
  date itself.
\<close>

theorem schema_accepts_iff_well_typed:
  "((\<exists>a. blog date_parse raw = Inr a) \<longleftrightarrow> frontmatter_ok raw) \<and>
   ((\<exists>e. blog date_parse raw = Inl e) \<longleftrightarrow> \<not> frontmatter_ok raw) \<and>
   (map_of kvs ''title'' = None \<longrightarrow>
      (\<exists>keys. blog date_parse (YMap kvs) = Inl (ZodError keys) \<and> ''title'' \<in> set keys)) \<and>
   (blog date_parse (YMap kvs) = Inr a \<longrightarrow>
      pubDate a = (case map_of kvs ''pubDate'' of
                     Some (YStr s) \<Rightarrow> date_parse s | Some (YDate t) \<Rightarrow> Date t | _ \<Rightarrow> pubDate a))"
proof (intro conjI)
  show acc: "(\<exists>a. blog date_parse raw = Inr a) \<longleftrightarrow> frontmatter_ok raw"
  proof (cases raw)
    case (YMap kvs')
    show ?thesis
      unfolding YMap blog_Inr_iff
      by (simp add: frontmatter_ok_def z_string_Some z_boolean_Some pubDate_Some z_array_string_Some)
  qed (simp_all add: blog_def frontmatter_ok_def)
  show "(\<exists>e. blog date_parse raw = Inl e) \<longleftrightarrow> \<not> frontmatter_ok raw"
    using acc by (cases "blog date_parse raw") auto
  show "map_of kvs ''title'' = None \<longrightarrow>
      (\<exists>keys. blog date_parse (YMap kvs) = Inl (ZodError keys) \<and> ''title'' \<in> set keys)"
    by (simp add: blog_def Let_def z_string_def issue_def)
  show "blog date_parse (YMap kvs) = Inr a \<longrightarrow>
      pubDate a = (case map_of kvs ''pubDate'' of
                     Some (YStr s) \<Rightarrow> date_parse s | Some (YDate t) \<Rightarrow> Date t | _ \<Rightarrow> pubDate a)"
    by (auto simp add: blog_def Let_def z_transform_def z_or_def z_string_def z_date_def new_Date_def
        split: option.splits yaml.splits)
qed

theorem schema_accepts_iff_well_typed_witness:
  "frontmatter_ok (YMap fm_good) \<and>
   blog (\<lambda>s. Invalid_Date) (YMap fm_good) = Inr (data published) \<and>
   pubDate (data published) = Date 1694131200000 \<and>
   map_of fm_untitled ''title'' = None \<and> \<not> frontmatter_ok (YMap fm_untitled) \<and>
   (\<exists>keys. blog (\<lambda>s. Invalid_Date) (YMap fm_untitled) = Inl (ZodError keys) \<and> ''title'' \<in> set keys)"
proof -
  have good: "blog (\<lambda>s. Invalid_Date) (YMap fm_good) = Inr (data published)"
    by (simp add: blog_def fm_good_def fm_untitled_def published_def z_string_def z_transform_def
        z_or_def z_date_def z_array_def z_boolean_def new_Date_def)
  have ok: "frontmatter_ok (YMap fm_good)"
    by (simp add: frontmatter_ok_def fm_good_def fm_untitled_def is_text_def is_date_or_text_def
        is_text_sequence_def is_boolean_def)
  have untitled: "map_of fm_untitled ''title'' = None"
    by (simp add: fm_untitled_def)
  show ?thesis
    using good ok untitled
      schema_accepts_iff_well_typed [of "\<lambda>s. Invalid_Date" "YMap fm_good" fm_good "data published"]
      schema_accepts_iff_well_typed [of "\<lambda>s. Invalid_Date" "YMap fm_untitled" fm_untitled]
    by (auto simp add: fm_good_def fm_untitled_def published_def)
qed

section \<open>Properties of the article page\<close>

lemma foldl_append_entries:
  "foldl (\<lambda>toc k. toc @ [toc_entry k]) acc ks = acc @ map toc_entry ks"
  by (induction ks arbitrary: acc) simp_all

text \<open>
  C1, as amended. When no element of class \<open>dw-blog-article\<close> exists, the generator
  returns the document unchanged and does not fail. The other two elements are not
  checked: with an article and no \<open>#table-of-contents\<close> the generator raises
  \<open>TypeError\<close>; without \<open>#post-progress-bar\<close> the scroll listener raises \<open>TypeError\<close>,
  and it does so at every scroll event of a page whose script ran through, which is where
  the listener is registered.
\<close>

theorem toc_guard_only_on_article:
  "(articles doc = [] \<longrightarrow> generateTableOfContents doc = Inr doc) \<and>
   (articles doc \<noteq> [] \<and> table_of_contents doc = None \<longrightarrow> generateTableOfContents doc = Inl TypeError) \<and>
   (post_progress_bar doc = None \<longrightarrow> scroll_listener style_width width doc = Inl TypeError) \<and>
   (post_progress_bar doc = None \<and> snd (inline_script doc) = None \<longrightarrow>
      scroll_registered (fst (inline_script doc)) \<and>
      scroll_event style_width width (fst (inline_script doc)) =
        (fst (inline_script doc), Some TypeError))"
proof (intro conjI impI)
  show "articles doc = [] \<Longrightarrow> generateTableOfContents doc = Inr doc"
    by (simp add: generateTableOfContents_def)
  show "articles doc \<noteq> [] \<and> table_of_contents doc = None \<Longrightarrow>
        generateTableOfContents doc = Inl TypeError"
    by (auto simp add: generateTableOfContents_def split: list.splits)
  show "post_progress_bar doc = None \<Longrightarrow> scroll_listener style_width width doc = Inl TypeError"
    by (simp add: scroll_listener_def)
  assume a: "post_progress_bar doc = None \<and> snd (inline_script doc) = None"
  then obtain doc' where gen: "generateTableOfContents doc = Inr doc'"
    by (cases "generateTableOfContents doc") (simp_all add: inline_script_def)
  have bar: "post_progress_bar doc' = None"
    using a gen
    by (auto simp add: generateTableOfContents_def split: list.splits option.splits if_splits)
  show "scroll_registered (fst (inline_script doc))"
    by (simp add: inline_script_def gen)
  show "scroll_event style_width width (fst (inline_script doc)) =
          (fst (inline_script doc), Some TypeError)"
    by (simp add: inline_script_def gen scroll_event_def scroll_listener_def bar)
qed

theorem toc_guard_only_on_article_witness:
  "articles no_article = [] \<and> table_of_contents no_article = None \<and>
   generateTableOfContents no_article = Inr no_article \<and>
   articles no_toc \<noteq> [] \<and> table_of_contents no_toc = None \<and>
   generateTableOfContents no_toc = Inl TypeError \<and>
   post_progress_bar no_bar = None \<and> snd (inline_script no_bar) = None \<and>
   scroll_listener store_assigned ''50%'' no_bar = Inl TypeError \<and>
   scroll_registered (fst (inline_script no_bar)) \<and>
   scroll_event store_assigned ''50%'' (fst (inline_script no_bar)) =
     (fst (inline_script no_bar), Some TypeError)"
proof -
  have ran: "snd (inline_script no_bar) = None"
    by (simp add: inline_script_def generateTableOfContents_def no_bar_def)
  show ?thesis
    using ran
      toc_guard_only_on_article [of no_article store_assigned "''50%''"]
      toc_guard_only_on_article [of no_toc store_assigned "''50%''"]
      toc_guard_only_on_article [of no_bar store_assigned "''50%''"]
    by (simp add: no_article_def no_toc_def no_bar_def sample_body_def)
qed

text \<open>
  C1 as stated fails on a document with an article and without \<open>#table-of-contents\<close>,
  where the generator raises; and on a document with an article, an empty table of
  contents and no \<open>#post-progress-bar\<close>, where the script runs through, registers the
  listener, and the listener raises at a scroll event.
\<close>

theorem missing_element_raises_counterexample:
  "table_of_contents no_toc = None \<and> generateTableOfContents no_toc = Inl TypeError \<and>
   post_progress_bar no_bar = None \<and> snd (inline_script no_bar) = None \<and>
   scroll_registered (fst (inline_script no_bar)) \<and>
   snd (scroll_event store_assigned ''50%'' (fst (inline_script no_bar))) = Some TypeError"
  by (simp add: no_toc_def no_bar_def generateTableOfContents_def inline_script_def
      scroll_event_def scroll_listener_def sample_body_def)

text \<open>
  C7. On a document with an article and an empty table of contents, the generator makes
  the table of contents the entries of the \<open>h2\<close> and \<open>h3\<close> elements of the article, one
  each, in document order. The entry of a heading links to \<open>#\<close> followed by its id, shows
  its text, and has the margin \<open>0rem\<close> for an \<open>h2\<close> and \<open>1rem\<close> for an \<open>h3\<close>. An
  article with two \<open>h2\<close> and one \<open>h3\<close> gets three entries.
\<close>

theorem toc_one_entry_per_heading:
  assumes "articles doc = article # others" and "table_of_contents doc = Some []"
  shows "generateTableOfContents doc =
           Inr (doc\<lparr>table_of_contents :=
                      Some (map toc_entry (filter (\<lambda>k. nodeName k = ''H2'' \<or> nodeName k = ''H3'') article))\<rparr>) \<and>
         (\<forall>k. a_href (toc_entry k) = ''#'' @ el_id k \<and> a_innerText (toc_entry k) = el_innerText k \<and>
              (nodeName k = ''H2'' \<longrightarrow> a_marginLeft (toc_entry k) = ''0rem'') \<and>
              (nodeName k = ''H3'' \<longrightarrow> a_marginLeft (toc_entry k) = ''1rem'')) \<and>
         (length (filter (\<lambda>k. nodeName k = ''H2'') article) = 2 \<and>
          length (filter (\<lambda>k. nodeName k = ''H3'') article) = 1 \<longrightarrow>
            length (map toc_entry (filter (\<lambda>k. nodeName k = ''H2'' \<or> nodeName k = ''H3'') article)) = 3)"
proof (intro conjI)
  show "generateTableOfContents doc =
           Inr (doc\<lparr>table_of_contents :=
                      Some (map toc_entry (filter (\<lambda>k. nodeName k = ''H2'' \<or> nodeName k = ''H3'') article))\<rparr>)"
    using assms
    by (simp add: generateTableOfContents_def querySelectorAll_h2_h3_def foldl_append_entries)
  show "\<forall>k. a_href (toc_entry k) = ''#'' @ el_id k \<and> a_innerText (toc_entry k) = el_innerText k \<and>
              (nodeName k = ''H2'' \<longrightarrow> a_marginLeft (toc_entry k) = ''0rem'') \<and>
              (nodeName k = ''H3'' \<longrightarrow> a_marginLeft (toc_entry k) = ''1rem'')"
    by (simp add: toc_entry_def margins_def)
  have count: "length (filter (\<lambda>k. nodeName k = ''H2'' \<or> nodeName k = ''H3'') xs) =
               length (filter (\<lambda>k. nodeName k = ''H2'') xs) + length (filter (\<lambda>k. nodeName k = ''H3'') xs)"
    for xs :: "html_element list"
    by (induction xs) auto
  show "length (filter (\<lambda>k. nodeName k = ''H2'') article) = 2 \<and>
          length (filter (\<lambda>k. nodeName k = ''H3'') article) = 1 \<longrightarrow>
            length (map toc_entry (filter (\<lambda>k. nodeName k = ''H2'' \<or> nodeName k = ''H3'') article)) = 3"
    by (simp add: count)
qed

theorem toc_one_entry_per_heading_witness:
  "generateTableOfContents (article_page sample_body) =
     Inr ((article_page sample_body)\<lparr>table_of_contents :=
        Some [toc_entry (h ''H2'' ''callbacks''), toc_entry (h ''H3'' ''the-problem''),
              toc_entry (h ''H2'' ''promises'')]\<rparr>)"
  using toc_one_entry_per_heading [of "article_page sample_body" sample_body "[]"]
  by (simp add: article_page_def sample_body_def h_def)

text \<open>
  C8. When the table of contents already has entries the generator returns the document
  unchanged; and on whatever document a run of the generator returns, a further run
  changes nothing.
\<close>

theorem toc_populated_once:
  "(table_of_contents doc = Some entries \<and> entries \<noteq> [] \<longrightarrow> generateTableOfContents doc = Inr doc) \<and>
   (generateTableOfContents doc = Inr doc' \<longrightarrow> generateTableOfContents doc' = Inr doc')"
  by (auto simp add: generateTableOfContents_def querySelectorAll_h2_h3_def foldl_append_entries
      split: list.splits option.splits if_splits)

theorem toc_populated_once_witness:
  "generateTableOfContents (article_page sample_body) =
     Inr ((article_page sample_body)\<lparr>table_of_contents := Some sample_toc\<rparr>) \<and>
   sample_toc \<noteq> [] \<and>
   generateTableOfContents ((article_page sample_body)\<lparr>table_of_contents := Some sample_toc\<rparr>) =
     Inr ((article_page sample_body)\<lparr>table_of_contents := Some sample_toc\<rparr>)"
proof -
  have first: "generateTableOfContents (article_page sample_body) =
     Inr ((article_page sample_body)\<lparr>table_of_contents := Some sample_toc\<rparr>)"
    by (simp add: generateTableOfContents_def querySelectorAll_h2_h3_def article_page_def
        sample_body_def sample_toc_def h_def)
  have filled: "sample_toc \<noteq> []"
    by (simp add: sample_toc_def)
  show ?thesis
    using first filled
      toc_populated_once [of "article_page sample_body" sample_toc
        "(article_page sample_body)\<lparr>table_of_contents := Some sample_toc\<rparr>"]
      toc_populated_once [of "(article_page sample_body)\<lparr>table_of_contents := Some sample_toc\<rparr>"
        sample_toc "(article_page sample_body)\<lparr>table_of_contents := Some sample_toc\<rparr>"]
    by simp
qed

end
